theory Spec2Isabelle
  imports Main "HOL-Library.Word"
begin

section \<open>Shared constants and C strings\<close>

text \<open>
  \<^verbatim>\<open>MHD_YES\<close> and \<^verbatim>\<open>MHD_NO\<close> are the two \<^verbatim>\<open>int\<close> return codes of the public
  header \<^verbatim>\<open>microhttpd.h\<close>. The header is not among the sources; the usual values 1 and 0
  are used, and only their being different matters below.
\<close>

definition MHD_YES :: int where
  "MHD_YES = 1"

definition MHD_NO :: int where
  "MHD_NO = 0"

text \<open>
  A C string is the list of its bytes before the terminating NUL; a \<^verbatim>\<open>const char *\<close>
  argument is a \<open>string option\<close>, \<open>None\<close> being \<^verbatim>\<open>NULL\<close>.
\<close>

definition strlen :: "string \<Rightarrow> nat" where
  "strlen s = length s"

text \<open>\<^verbatim>\<open>strstr\<close>: offset of the first occurrence of the needle, \<open>None\<close> for \<^verbatim>\<open>NULL\<close>.\<close>

fun strstr :: "string \<Rightarrow> string \<Rightarrow> nat option" where
  "strstr [] needle = (if needle = [] then Some 0 else None)"
| "strstr (x # xs) needle =
     (if take (length needle) (x # xs) = needle then Some 0
      else map_option Suc (strstr xs needle))"

text \<open>\<^verbatim>\<open>strcmp\<close>: zero for equal strings, otherwise the sign of the first differing byte.\<close>

fun strcmp :: "string \<Rightarrow> string \<Rightarrow> int" where
  "strcmp [] [] = 0"
| "strcmp [] (y # ys) = - 1"
| "strcmp (x # xs) [] = 1"
| "strcmp (x # xs) (y # ys) =
     (if x = y then strcmp xs ys
      else if (of_char x :: nat) < of_char y then - 1 else 1)"

definition TAB :: string where
  "TAB = [CHR 0x09]"

definition CR :: string where
  "CR = [CHR 0x0D]"

definition LF :: string where
  "LF = [CHR 0x0A]"

section \<open>Response objects (response.c)\<close>

text \<open>
  The struct declarations live in \<^verbatim>\<open>internal.h\<close> and \<^verbatim>\<open>microhttpd.h\<close>, which are not
  among the sources; the records below hold exactly the fields that \<^verbatim>\<open>response.c\<close>
  reads or writes. The singly linked header list (\<^verbatim>\<open>first_header\<close>, \<^verbatim>\<open>next\<close>) is a HOL
  list whose head is \<^verbatim>\<open>first_header\<close>. The field \<^verbatim>\<open>value\<close> is called \<open>value_str\<close>
  because \<open>value\<close> is reserved in Isabelle.
\<close>

datatype MHD_ValueKind =
    MHD_RESPONSE_HEADER_KIND
  | MHD_HEADER_KIND
  | MHD_COOKIE_KIND
  | MHD_POSTDATA_KIND
  | MHD_GET_ARGUMENT_KIND

record MHD_HTTP_Header =
  header :: string
  value_str :: string
  kind :: MHD_ValueKind

type_synonym addr = nat

text \<open>
  Function pointers are opaque: a content reader is known by a number, a free hook is
  either the C library's \<^verbatim>\<open>free\<close> or an application function known by a number.
\<close>

datatype MHD_ContentReaderFreeCallback = libc_free | application_free nat

text \<open>
  \<^verbatim>\<open>reference_count\<close> is an \<^verbatim>\<open>unsigned int\<close> (declared in \<^verbatim>\<open>internal.h\<close>), a 32-bit
  word: \<^verbatim>\<open>++\<close> at 4294967295 gives 0 and \<^verbatim>\<open>--\<close> at 0 gives 4294967295. The mutex guards the counter against other threads
  and has no effect on a single thread's view, so it is not a field; only the result of
  \<^verbatim>\<open>pthread_mutex_init\<close> is visible, as an argument of the two constructors.
\<close>

record MHD_Response =
  first_header :: "MHD_HTTP_Header list"
  data :: "addr option"
  crc_cls :: "addr option"
  crc :: "nat option"
  crfc :: "MHD_ContentReaderFreeCallback option"
  reference_count :: "32 word"
  total_size :: nat
  data_size :: nat

text \<open>What \<^verbatim>\<open>free\<close> was called on, in call order.\<close>

datatype heap_object =
    String_block string
  | Header_block MHD_HTTP_Header
  | Response_block

subsection \<open>\<^verbatim>\<open>MHD_add_response_header\<close>\<close>

text \<open>
  The new entry is linked in front of \<^verbatim>\<open>first_header\<close>. The results of \<^verbatim>\<open>malloc\<close>
  and \<^verbatim>\<open>strdup\<close> are not checked by the source; allocation is taken to succeed.
\<close>

definition MHD_add_response_header ::
  "MHD_Response option \<Rightarrow> string option \<Rightarrow> string option \<Rightarrow> int \<times> MHD_Response option" where
  "MHD_add_response_header response header_arg content =
     (case response of
        None \<Rightarrow> (MHD_NO, response)
      | Some r \<Rightarrow>
          (case header_arg of
             None \<Rightarrow> (MHD_NO, response)
           | Some h \<Rightarrow>
               (case content of
                  None \<Rightarrow> (MHD_NO, response)
                | Some c \<Rightarrow>
                    if strlen h = 0 \<or> strlen c = 0
                       \<or> strstr h TAB \<noteq> None \<or> strstr h CR \<noteq> None \<or> strstr h LF \<noteq> None
                       \<or> strstr c TAB \<noteq> None \<or> strstr c CR \<noteq> None \<or> strstr c LF \<noteq> None
                    then (MHD_NO, response)
                    else (MHD_YES,
                          Some (r\<lparr>first_header :=
                                    \<lparr>header = h, value_str = c, kind = MHD_HEADER_KIND\<rparr>
                                    # first_header r\<rparr>)))))"

subsection \<open>\<^verbatim>\<open>MHD_del_response_header\<close>\<close>

text \<open>
  The loop walks the list from \<^verbatim>\<open>first_header\<close>; at the first entry with both
  \<^verbatim>\<open>strcmp\<close> results zero it unlinks the entry and frees its two strings and the node.
  \<open>del_loop\<close> returns the list after unlinking together with the freed objects, or
  \<open>None\<close> when \<^verbatim>\<open>pos\<close> reaches \<^verbatim>\<open>NULL\<close>. The response pointer is dereferenced without
  a check, so the function takes a response, not a pointer that may be \<^verbatim>\<open>NULL\<close>.
\<close>

fun del_loop ::
  "string \<Rightarrow> string \<Rightarrow> MHD_HTTP_Header list \<Rightarrow> (MHD_HTTP_Header list \<times> heap_object list) option" where
  "del_loop h c [] = None"
| "del_loop h c (pos # rest) =
     (if strcmp h (header pos) = 0 \<and> strcmp c (value_str pos) = 0
      then Some (rest, [String_block (header pos), String_block (value_str pos), Header_block pos])
      else map_option (\<lambda>(l, f). (pos # l, f)) (del_loop h c rest))"

definition MHD_del_response_header ::
  "MHD_Response \<Rightarrow> string option \<Rightarrow> string option \<Rightarrow> int \<times> MHD_Response \<times> heap_object list" where
  "MHD_del_response_header response header_arg content =
     (case header_arg of
        None \<Rightarrow> (MHD_NO, response, [])
      | Some h \<Rightarrow>
          (case content of
             None \<Rightarrow> (MHD_NO, response, [])
           | Some c \<Rightarrow>
               (case del_loop h c (first_header response) of
                  None \<Rightarrow> (MHD_NO, response, [])
                | Some (l, f) \<Rightarrow> (MHD_YES, response\<lparr>first_header := l\<rparr>, f))))"

subsection \<open>\<^verbatim>\<open>MHD_get_response_headers\<close>\<close>

text \<open>
  The iterator is a C function with a closure pointer \<^verbatim>\<open>iterator_cls\<close>; here it is a
  function that takes the closure's state and returns its \<^verbatim>\<open>int\<close> result with the new
  state. \<open>None\<close> is the \<^verbatim>\<open>NULL\<close> iterator. \<open>get_loop\<close> is the \<^verbatim>\<open>while\<close> loop with
  \<^verbatim>\<open>pos\<close> and \<^verbatim>\<open>numHeaders\<close> as arguments.
\<close>

type_synonym 's MHD_KeyValueIterator =
  "'s \<Rightarrow> MHD_ValueKind \<Rightarrow> string \<Rightarrow> string \<Rightarrow> int \<times> 's"

fun get_loop ::
  "'s MHD_KeyValueIterator option \<Rightarrow> 's \<Rightarrow> MHD_HTTP_Header list \<Rightarrow> int \<Rightarrow> int \<times> 's" where
  "get_loop iterator cls [] numHeaders = (numHeaders, cls)"
| "get_loop iterator cls (pos # rest) numHeaders =
     (case iterator of
        None \<Rightarrow> get_loop iterator cls rest (numHeaders + 1)
      | Some it \<Rightarrow>
          (case it cls (kind pos) (header pos) (value_str pos) of
             (ret, cls') \<Rightarrow>
               if MHD_YES \<noteq> ret then (numHeaders + 1, cls')
               else get_loop iterator cls' rest (numHeaders + 1)))"

definition MHD_get_response_headers ::
  "MHD_Response \<Rightarrow> 's MHD_KeyValueIterator option \<Rightarrow> 's \<Rightarrow> int \<times> 's" where
  "MHD_get_response_headers response iterator iterator_cls =
     get_loop iterator iterator_cls (first_header response) 0"

subsection \<open>The two constructors\<close>

text \<open>
  Caller-supplied body bytes live in a store of blocks, each known by the address of its
  first byte; a \<^verbatim>\<open>void *\<close> is an \<open>addr option\<close>. \<open>malloc\<close> returns an address above
  every live block. The source checks none of its \<^verbatim>\<open>malloc\<close> results; allocation is
  taken to succeed. \<^verbatim>\<open>memcpy\<close> from a pointer that does not address \<^verbatim>\<open>size\<close> readable
  bytes is undefined in C and is the fault \<open>Invalid_read\<close> here.
\<close>

type_synonym heap = "(addr \<times> string) list"

datatype fault = Invalid_read

definition malloc :: "heap \<Rightarrow> nat \<Rightarrow> addr \<times> heap" where
  "malloc mem n =
     (let p = Suc (fold max (map fst mem) 0)
      in (p, (p, replicate n (CHR 0x00)) # mem))"

definition read_bytes :: "heap \<Rightarrow> addr option \<Rightarrow> nat \<Rightarrow> string option" where
  "read_bytes mem p n =
     (case p of
        None \<Rightarrow> None
      | Some a \<Rightarrow>
          (case map_of mem a of
             None \<Rightarrow> None
           | Some bytes \<Rightarrow> if n \<le> length bytes then Some (take n bytes) else None))"

definition write_bytes :: "heap \<Rightarrow> addr \<Rightarrow> string \<Rightarrow> heap" where
  "write_bytes mem dst bytes =
     map (\<lambda>(a, old). if a = dst then (a, bytes @ drop (length bytes) old) else (a, old)) mem"

definition memcpy :: "heap \<Rightarrow> addr \<Rightarrow> addr option \<Rightarrow> nat \<Rightarrow> fault + heap" where
  "memcpy mem dst src n =
     (case read_bytes mem src n of
        None \<Rightarrow> Inl Invalid_read
      | Some bytes \<Rightarrow> Inr (write_bytes mem dst bytes))"

text \<open>The object after \<^verbatim>\<open>memset (retVal, 0, sizeof (struct MHD_Response))\<close>.\<close>

definition zeroed_response :: MHD_Response where
  "zeroed_response =
     \<lparr>first_header = [], data = None, crc_cls = None, crc = None, crfc = None,
      reference_count = 0, total_size = 0, data_size = 0\<rparr>"

text \<open>
  \<open>mutex_init_result\<close> is what \<^verbatim>\<open>pthread_mutex_init\<close> returns. \<open>None\<close> is the
  \<^verbatim>\<open>NULL\<close> result. The argument \<^verbatim>\<open>size\<close> is written \<open>size'\<close>.
\<close>

definition MHD_create_response_from_callback ::
  "int \<Rightarrow> nat \<Rightarrow> nat option \<Rightarrow> addr option \<Rightarrow> MHD_ContentReaderFreeCallback option
     \<Rightarrow> MHD_Response option" where
  "MHD_create_response_from_callback mutex_init_result size' crc_arg crc_cls_arg crfc_arg =
     (if crc_arg = None then None
      else if mutex_init_result \<noteq> 0 then None
      else Some (zeroed_response
                   \<lparr>crc := crc_arg, crfc := crfc_arg, crc_cls := crc_cls_arg,
                    reference_count := 1, total_size := size'\<rparr>))"

definition MHD_create_response_from_data ::
  "heap \<Rightarrow> int \<Rightarrow> nat \<Rightarrow> addr option \<Rightarrow> int \<Rightarrow> int \<Rightarrow> fault + (MHD_Response option \<times> heap)" where
  "MHD_create_response_from_data mem mutex_init_result size' data_arg must_free must_copy =
     (if data_arg = None \<and> size' > 0 then Inr (None, mem)
      else if mutex_init_result \<noteq> 0 then Inr (None, mem)
      else
        (case (if must_copy \<noteq> 0 \<and> size' > 0
               then (case malloc mem size' of
                       (tmp, mem1) \<Rightarrow>
                         (case memcpy mem1 tmp data_arg size' of
                            Inl f \<Rightarrow> Inl f
                          | Inr mem2 \<Rightarrow> Inr (1, Some tmp, mem2)))
               else Inr (must_free, data_arg, mem)) of
           Inl f \<Rightarrow> Inl f
         | Inr (must_free', data', mem') \<Rightarrow>
             Inr (Some (zeroed_response
                          \<lparr>crc := None,
                           crfc := (if must_free' \<noteq> 0 then Some libc_free else None),
                           crc_cls := (if must_free' \<noteq> 0 then data' else None),
                           reference_count := 1,
                           total_size := size',
                           data := data',
                           data_size := size'\<rparr>),
                  mem')))"

subsection \<open>\<^verbatim>\<open>MHD_destroy_response\<close> and \<^verbatim>\<open>MHD_increment_response_rc\<close>\<close>

text \<open>
  \<open>free_headers\<close> is the \<^verbatim>\<open>while\<close> loop that pops and frees the header list. The result
  of \<open>MHD_destroy_response\<close> is the object the pointer addresses after the call (\<open>None\<close>
  when it was \<^verbatim>\<open>NULL\<close> or has been freed) and the freed objects in call order. Neither
  \<^verbatim>\<open>data\<close> nor \<^verbatim>\<open>crc_cls\<close> is touched, and \<^verbatim>\<open>crfc\<close> is not called.
\<close>

fun free_headers :: "MHD_HTTP_Header list \<Rightarrow> heap_object list" where
  "free_headers [] = []"
| "free_headers (pos # rest) =
     String_block (header pos) # String_block (value_str pos) # Header_block pos
     # free_headers rest"

definition MHD_destroy_response ::
  "MHD_Response option \<Rightarrow> MHD_Response option \<times> heap_object list" where
  "MHD_destroy_response response =
     (case response of
        None \<Rightarrow> (None, [])
      | Some r \<Rightarrow>
          (let r' = r\<lparr>reference_count := reference_count r - 1\<rparr>
           in if 0 \<noteq> reference_count r' then (Some r', [])
              else (None, free_headers (first_header r') @ [Response_block])))"

definition MHD_increment_response_rc :: "MHD_Response \<Rightarrow> MHD_Response" where
  "MHD_increment_response_rc response =
     response\<lparr>reference_count := reference_count response + 1\<rparr>"

subsection \<open>Observing calls\<close>

text \<open>
  \<open>add_headers\<close> is a caller that adds the given (name, value) pairs one after the other
  and gives up at the first call that does not return \<^verbatim>\<open>MHD_YES\<close>. \<open>collect\<close> is an
  iterator that appends what it is shown to its closure and always continues.
  \<open>logging\<close> wraps any iterator so that every call is written down with its result.
\<close>

fun add_headers :: "MHD_Response \<Rightarrow> (string \<times> string) list \<Rightarrow> MHD_Response option" where
  "add_headers r [] = Some r"
| "add_headers r ((h, c) # rest) =
     (case MHD_add_response_header (Some r) (Some h) (Some c) of
        (ret, None) \<Rightarrow> None
      | (ret, Some r') \<Rightarrow> if ret = MHD_YES then add_headers r' rest else None)"

definition collect :: "(MHD_ValueKind \<times> string \<times> string) list MHD_KeyValueIterator" where
  "collect cls k h v = (MHD_YES, cls @ [(k, h, v)])"

definition logging ::
  "'s MHD_KeyValueIterator \<Rightarrow> ('s \<times> (MHD_HTTP_Header \<times> int) list) MHD_KeyValueIterator" where
  "logging it = (\<lambda>(cls, calls) k h v.
     case it cls k h v of
       (ret, cls') \<Rightarrow>
         (ret, (cls', calls @ [(\<lparr>header = h, value_str = v, kind = k\<rparr>, ret)])))"

section \<open>The TLS adapter (connection_https.c)\<close>

text \<open>
  The connection states and termination codes are enumerations of the missing headers;
  \<^verbatim>\<open>connection_https.c\<close> names three states and three codes, the other constructors
  follow the state table and the termination classes of the specification.
\<close>

datatype MHD_CONNECTION_STATE =
    MHD_CONNECTION_INIT
  | MHD_CONNECTION_URL_RECEIVED
  | MHD_CONNECTION_HEADER_PART_RECEIVED
  | MHD_CONNECTION_HEADERS_RECEIVED
  | MHD_CONNECTION_HEADERS_PROCESSED
  | MHD_CONNECTION_CONTINUE_SENDING
  | MHD_CONNECTION_CONTINUE_SENT
  | MHD_CONNECTION_BODY_RECEIVED
  | MHD_CONNECTION_FOOTER_PART_RECEIVED
  | MHD_CONNECTION_FOOTERS_RECEIVED
  | MHD_CONNECTION_HEADERS_SENDING
  | MHD_CONNECTION_HEADERS_SENT
  | MHD_CONNECTION_NORMAL_BODY_READY
  | MHD_CONNECTION_NORMAL_BODY_UNREADY
  | MHD_CONNECTION_CHUNKED_BODY_READY
  | MHD_CONNECTION_CHUNKED_BODY_UNREADY
  | MHD_CONNECTION_BODY_SENT
  | MHD_CONNECTION_FOOTERS_SENT
  | MHD_CONNECTION_CLOSED
  | MHD_TLS_CONNECTION_INIT

datatype MHD_RequestTerminationCode =
    MHD_REQUEST_TERMINATED_COMPLETED_OK
  | MHD_REQUEST_TERMINATED_WITH_ERROR
  | MHD_REQUEST_TERMINATED_TIMEOUT_REACHED
  | MHD_REQUEST_TERMINATED_DAEMON_SHUTDOWN
  | MHD_REQUEST_TERMINATED_CLIENT_ABORT

text \<open>
  Results of \<^verbatim>\<open>gnutls_handshake\<close>, with the values of \<^verbatim>\<open>gnutls.h\<close>; the handlers only
  compare against them.
\<close>

definition GNUTLS_E_SUCCESS :: int where
  "GNUTLS_E_SUCCESS = 0"

definition GNUTLS_E_AGAIN :: int where
  "GNUTLS_E_AGAIN = - 28"

definition GNUTLS_E_INTERRUPTED :: int where
  "GNUTLS_E_INTERRUPTED = - 52"

text \<open>
  Calls that leave the file are recorded, in order, in the connection's \<open>trace\<close>: the two
  GnuTLS primitives, and the termination callback.
\<close>

datatype event =
    Gnutls_handshake
  | Gnutls_bye
  | Notify_completed MHD_RequestTerminationCode

record MHD_Daemon =
  connection_timeout :: nat

text \<open>
  \<^verbatim>\<open>socket_fd\<close> is a C \<^verbatim>\<open>int\<close> with \<open>- 1\<close> for a closed socket. \<^verbatim>\<open>last_activity\<close> and the
  clock are \<^verbatim>\<open>time_t\<close> seconds, \<^verbatim>\<open>connection_timeout\<close> is an \<^verbatim>\<open>unsigned int\<close>; they are
  mathematical numbers here, as on a platform whose \<^verbatim>\<open>time_t\<close> is a signed 64-bit type,
  where \<^verbatim>\<open>time (NULL) - timeout\<close> cannot wrap for any clock reading.
\<close>

record MHD_Connection =
  daemon :: MHD_Daemon
  state :: MHD_CONNECTION_STATE
  socket_fd :: int
  last_activity :: int
  pool_live :: bool
  trace :: "event list"

text \<open>
  Modelled from the spec: \<^verbatim>\<open>MHD_connection_close\<close> is defined in \<^verbatim>\<open>connection.c\<close>, which
  is not among the sources. The specification (4.4, CLOSED handling) says that closing
  invokes the termination callback with the termination code, frees the pool and closes
  the socket; the connection is then in CLOSED and (3, Connection) its socket handle is
  the sentinel "closed", which \<^verbatim>\<open>connection_https.c\<close> tests as \<open>- 1\<close>.
\<close>

definition MHD_connection_close ::
  "MHD_Connection \<Rightarrow> MHD_RequestTerminationCode \<Rightarrow> MHD_Connection" where
  "MHD_connection_close connection termination_code =
     connection
       \<lparr>state := MHD_CONNECTION_CLOSED,
        socket_fd := - 1,
        pool_live := False,
        trace := trace connection @ [Notify_completed termination_code]\<rparr>"

definition MHD_tls_connection_close ::
  "MHD_Connection \<Rightarrow> MHD_RequestTerminationCode \<Rightarrow> MHD_Connection" where
  "MHD_tls_connection_close connection termination_code =
     MHD_connection_close
       (connection\<lparr>trace := trace connection @ [Gnutls_bye]\<rparr>) termination_code"

text \<open>
  The plain HTTP handlers \<^verbatim>\<open>MHD_connection_handle_idle\<close>, \<^verbatim>\<open>_read\<close> and \<^verbatim>\<open>_write\<close> are
  defined in \<^verbatim>\<open>connection.c\<close>; each TLS handler takes the plain handler it falls back to
  as its first argument. \<open>now\<close> is the value of \<^verbatim>\<open>time (NULL)\<close>, \<open>ret\<close> the result of
  \<^verbatim>\<open>gnutls_handshake\<close> should the handler call it.
\<close>

type_synonym handler = "MHD_Connection \<Rightarrow> int \<times> MHD_Connection"

definition MHD_tls_connection_handle_idle :: "handler \<Rightarrow> int \<Rightarrow> handler" where
  "MHD_tls_connection_handle_idle MHD_connection_handle_idle now connection =
     (let timeout = connection_timeout (daemon connection)
      in if socket_fd connection \<noteq> - 1 \<and> timeout \<noteq> 0
            \<and> now - int timeout > last_activity connection
         then (MHD_NO,
               MHD_tls_connection_close connection MHD_REQUEST_TERMINATED_TIMEOUT_REACHED)
         else
           (case state connection of
              MHD_TLS_CONNECTION_INIT \<Rightarrow> (MHD_YES, connection)
            | MHD_CONNECTION_CLOSED \<Rightarrow>
                (MHD_NO,
                 if socket_fd connection \<noteq> - 1
                 then MHD_tls_connection_close connection MHD_REQUEST_TERMINATED_COMPLETED_OK
                 else connection)
            | _ \<Rightarrow> MHD_connection_handle_idle connection))"

definition MHD_tls_connection_handle_read :: "handler \<Rightarrow> int \<Rightarrow> int \<Rightarrow> handler" where
  "MHD_tls_connection_handle_read MHD_connection_handle_read now ret connection =
     (let c1 = connection\<lparr>last_activity := now\<rparr>
      in if state c1 = MHD_TLS_CONNECTION_INIT
         then
           (let c2 = c1\<lparr>trace := trace c1 @ [Gnutls_handshake]\<rparr>
            in if ret = GNUTLS_E_SUCCESS
               then (MHD_YES, c2\<lparr>state := MHD_CONNECTION_INIT\<rparr>)
               else if ret = GNUTLS_E_AGAIN \<or> ret = GNUTLS_E_INTERRUPTED
               then (MHD_YES, c2)
               else (MHD_NO,
                     MHD_tls_connection_close c2 MHD_REQUEST_TERMINATED_WITH_ERROR))
         else MHD_connection_handle_read c1)"

definition MHD_tls_connection_handle_write :: "handler \<Rightarrow> int \<Rightarrow> int \<Rightarrow> handler" where
  "MHD_tls_connection_handle_write MHD_connection_handle_write now ret connection =
     (let c1 = connection\<lparr>last_activity := now\<rparr>
      in if state c1 = MHD_TLS_CONNECTION_INIT
         then
           (let c2 = c1\<lparr>trace := trace c1 @ [Gnutls_handshake]\<rparr>
            in if ret = GNUTLS_E_SUCCESS
               then (MHD_YES, c2\<lparr>state := MHD_CONNECTION_INIT\<rparr>)
               else if ret = GNUTLS_E_AGAIN \<or> ret = GNUTLS_E_INTERRUPTED
               then (MHD_YES, c2)
               else (MHD_NO,
                     MHD_tls_connection_close c2 MHD_REQUEST_TERMINATED_WITH_ERROR))
         else MHD_connection_handle_write c1)"

text \<open>
  Modelled from the spec: the plain handlers \<^verbatim>\<open>MHD_connection_handle_read\<close>,
  \<^verbatim>\<open>MHD_connection_handle_write\<close> and \<^verbatim>\<open>MHD_connection_handle_idle\<close> are defined in
  \<^verbatim>\<open>connection.c\<close>, which is not among the sources. The specification says (4.4, 4.6) that
  the handlers advance the state machine, that CLOSED is terminal, and that a connection
  with \<open>now - last_activity > timeout\<close> is force-closed in the idle step with termination
  timeout; and (7) that the other error kinds close the connection with their own
  termination, with-error or client-abort. How the state machine reads the bytes is not
  modelled: an \<open>outcome\<close> says what one step of it does, the next state or one of the two
  failures.
\<close>

datatype outcome =
    Advance MHD_CONNECTION_STATE
  | Fail_with_error
  | Fail_client_abort

text \<open>
  Modelled from the spec: the effect of one outcome of the state machine of
  \<^verbatim>\<open>connection.c\<close> on the connection (4.4 for the next state, 7 for the two failures,
  which close with their termination).
\<close>

fun apply_outcome :: "outcome \<Rightarrow> handler" where
  "apply_outcome (Advance s) connection = (MHD_YES, connection\<lparr>state := s\<rparr>)"
| "apply_outcome Fail_with_error connection =
     (MHD_NO, MHD_connection_close connection MHD_REQUEST_TERMINATED_WITH_ERROR)"
| "apply_outcome Fail_client_abort connection =
     (MHD_NO, MHD_connection_close connection MHD_REQUEST_TERMINATED_CLIENT_ABORT)"

text \<open>
  Modelled from the spec: \<^verbatim>\<open>MHD_connection_handle_read\<close> of \<^verbatim>\<open>connection.c\<close>. CLOSED is
  terminal (4.4): nothing happens there; elsewhere the state machine takes its step.
\<close>

definition MHD_connection_handle_read :: "outcome \<Rightarrow> handler" where
  "MHD_connection_handle_read machine connection =
     (if state connection = MHD_CONNECTION_CLOSED then (MHD_NO, connection)
      else apply_outcome machine connection)"

text \<open>
  Modelled from the spec: \<^verbatim>\<open>MHD_connection_handle_write\<close> of \<^verbatim>\<open>connection.c\<close>, as for
  reading.
\<close>

definition MHD_connection_handle_write :: "outcome \<Rightarrow> handler" where
  "MHD_connection_handle_write machine connection =
     (if state connection = MHD_CONNECTION_CLOSED then (MHD_NO, connection)
      else apply_outcome machine connection)"

text \<open>
  Modelled from the spec: \<^verbatim>\<open>MHD_connection_handle_idle\<close> of \<^verbatim>\<open>connection.c\<close>. CLOSED is
  terminal; a connection with \<open>now - last_activity > timeout\<close> is force-closed with
  termination timeout (4.6); otherwise the state machine takes its step.
\<close>

definition MHD_connection_handle_idle :: "outcome \<Rightarrow> int \<Rightarrow> handler" where
  "MHD_connection_handle_idle machine now connection =
     (if state connection = MHD_CONNECTION_CLOSED then (MHD_NO, connection)
      else if now - last_activity connection > int (connection_timeout (daemon connection))
      then (MHD_NO,
            MHD_connection_close connection MHD_REQUEST_TERMINATED_TIMEOUT_REACHED)
      else apply_outcome machine connection)"





text \<open>
  How often the close routine has run on a connection, that is, how often the
  termination callback has been invoked; and how often with the termination code timeout.
\<close>

fun is_close :: "event \<Rightarrow> bool" where
  "is_close (Notify_completed code) = True"
| "is_close Gnutls_handshake = False"
| "is_close Gnutls_bye = False"

definition closes :: "MHD_Connection \<Rightarrow> nat" where
  "closes c = length (filter is_close (trace c))"

definition timeout_closes :: "MHD_Connection \<Rightarrow> nat" where
  "timeout_closes c =
     count_list (trace c) (Notify_completed MHD_REQUEST_TERMINATED_TIMEOUT_REACHED)"

text \<open>
  The socket handle as the guard of the close routine: while the socket is open the
  close routine has not run; once the handle is the sentinel the connection is CLOSED
  and the close routine has run exactly once.
\<close>

definition sentinel_guard :: "MHD_Connection \<Rightarrow> bool" where
  "sentinel_guard c \<longleftrightarrow>
     (if socket_fd c = - 1 then state c = MHD_CONNECTION_CLOSED \<and> closes c = 1
      else closes c = 0)"

section \<open>Properties of the header list\<close>

subsection \<open>The C string functions\<close>

lemma strstr_single: "strstr s [ch] \<noteq> None \<longleftrightarrow> ch \<in> set s"
  by (induction s) auto

lemma strcmp_zero: "strcmp a b = 0 \<longleftrightarrow> a = b"
  by (induction a b rule: strcmp.induct) auto

lemma control_free:
  "strstr s TAB \<noteq> None \<or> strstr s CR \<noteq> None \<or> strstr s LF \<noteq> None
     \<longleftrightarrow> CHR 0x09 \<in> set s \<or> CHR 0x0D \<in> set s \<or> CHR 0x0A \<in> set s"
  unfolding TAB_def CR_def LF_def strstr_single by (rule refl)

subsection \<open>Adding a header\<close>

text \<open>
  Claim C8. \<^verbatim>\<open>MHD_add_response_header\<close> returns \<^verbatim>\<open>MHD_NO\<close> and leaves the response as
  it is whenever the response, the header name or the content is \<^verbatim>\<open>NULL\<close>, either string
  is empty, or either string contains a tab, a carriage return or a line feed. For all
  other arguments it returns \<^verbatim>\<open>MHD_YES\<close> and the header list is the old one with exactly
  one new entry, of kind \<^verbatim>\<open>MHD_HEADER_KIND\<close>, holding the two strings.
\<close>

theorem add_response_header_checks:
  "(response = None \<or> header_arg = None \<or> content = None
      \<or> (\<exists>s \<in> set_option header_arg \<union> set_option content.
            s = [] \<or> CHR 0x09 \<in> set s \<or> CHR 0x0D \<in> set s \<or> CHR 0x0A \<in> set s)
     \<longrightarrow> MHD_add_response_header response header_arg content = (MHD_NO, response))
   \<and> (\<forall>r h c. response = Some r \<and> header_arg = Some h \<and> content = Some c
         \<and> h \<noteq> [] \<and> c \<noteq> []
         \<and> set (h @ c) \<inter> {CHR 0x09, CHR 0x0D, CHR 0x0A} = {}
       \<longrightarrow> MHD_add_response_header response header_arg content =
             (MHD_YES,
              Some (r\<lparr>first_header :=
                        \<lparr>header = h, value_str = c, kind = MHD_HEADER_KIND\<rparr> # first_header r\<rparr>)))"
proof (intro conjI allI impI)
  assume bad: "response = None \<or> header_arg = None \<or> content = None
      \<or> (\<exists>s \<in> set_option header_arg \<union> set_option content.
            s = [] \<or> CHR 0x09 \<in> set s \<or> CHR 0x0D \<in> set s \<or> CHR 0x0A \<in> set s)"
  show "MHD_add_response_header response header_arg content = (MHD_NO, response)"
  proof (cases response)
    case None
    then show ?thesis by (simp add: MHD_add_response_header_def)
  next
    case (Some r)
    show ?thesis
    proof (cases header_arg)
      case None
      with Some show ?thesis by (simp add: MHD_add_response_header_def)
    next
      case h: (Some h)
      show ?thesis
      proof (cases content)
        case None
        with Some h show ?thesis by (simp add: MHD_add_response_header_def)
      next
        case c: (Some c)
        from bad Some h c have
          "h = [] \<or> c = [] \<or> (CHR 0x09 \<in> set h \<or> CHR 0x0D \<in> set h \<or> CHR 0x0A \<in> set h)
             \<or> (CHR 0x09 \<in> set c \<or> CHR 0x0D \<in> set c \<or> CHR 0x0A \<in> set c)"
          by auto
        then have "strlen h = 0 \<or> strlen c = 0
             \<or> (strstr h TAB \<noteq> None \<or> strstr h CR \<noteq> None \<or> strstr h LF \<noteq> None)
             \<or> (strstr c TAB \<noteq> None \<or> strstr c CR \<noteq> None \<or> strstr c LF \<noteq> None)"
          unfolding control_free strlen_def by simp
        with Some h c show ?thesis
          by (simp add: MHD_add_response_header_def del: strstr.simps)
      qed
    qed
  qed
next
  fix r h c
  assume ok: "response = Some r \<and> header_arg = Some h \<and> content = Some c
         \<and> h \<noteq> [] \<and> c \<noteq> []
         \<and> set (h @ c) \<inter> {CHR 0x09, CHR 0x0D, CHR 0x0A} = {}"
  then have "\<not> (CHR 0x09 \<in> set h \<or> CHR 0x0D \<in> set h \<or> CHR 0x0A \<in> set h)"
    and "\<not> (CHR 0x09 \<in> set c \<or> CHR 0x0D \<in> set c \<or> CHR 0x0A \<in> set c)"
    by auto
  then have "\<not> (strstr h TAB \<noteq> None \<or> strstr h CR \<noteq> None \<or> strstr h LF \<noteq> None)"
    and "\<not> (strstr c TAB \<noteq> None \<or> strstr c CR \<noteq> None \<or> strstr c LF \<noteq> None)"
    unfolding control_free by simp_all
  with ok show "MHD_add_response_header response header_arg content =
             (MHD_YES,
              Some (r\<lparr>first_header :=
                        \<lparr>header = h, value_str = c, kind = MHD_HEADER_KIND\<rparr> # first_header r\<rparr>))"
    by (simp add: MHD_add_response_header_def strlen_def del: strstr.simps)
qed


theorem add_response_header_checks_witness:
  "MHD_add_response_header (Some zeroed_response) (Some ''Content-Type'') (Some ''text/html'') =
     (MHD_YES,
      Some (zeroed_response\<lparr>first_header :=
              [\<lparr>header = ''Content-Type'', value_str = ''text/html'', kind = MHD_HEADER_KIND\<rparr>]\<rparr>))
   \<and> MHD_add_response_header (Some zeroed_response) (Some [CHR ''a'', CHR 0x0A]) (Some ''b'') =
     (MHD_NO, Some zeroed_response)"
proof -
  have a: "set (''Content-Type'' @ ''text/html'') \<inter> {CHR 0x09, CHR 0x0D, CHR 0x0A} = {}"
    by simp
  have b: "\<exists>s \<in> set_option (Some [CHR ''a'', CHR 0x0A]) \<union> set_option (Some ''b'').
            s = [] \<or> CHR 0x09 \<in> set s \<or> CHR 0x0D \<in> set s \<or> CHR 0x0A \<in> set s"
    by simp
  have "MHD_add_response_header (Some zeroed_response) (Some ''Content-Type'') (Some ''text/html'') =
     (MHD_YES,
      Some (zeroed_response\<lparr>first_header :=
              \<lparr>header = ''Content-Type'', value_str = ''text/html'', kind = MHD_HEADER_KIND\<rparr>
              # first_header zeroed_response\<rparr>))"
    using add_response_header_checks
      [of "Some zeroed_response" "Some ''Content-Type''" "Some ''text/html''"] a
    by blast
  moreover have "MHD_add_response_header (Some zeroed_response) (Some [CHR ''a'', CHR 0x0A]) (Some ''b'') =
     (MHD_NO, Some zeroed_response)"
    using add_response_header_checks
      [of "Some zeroed_response" "Some [CHR ''a'', CHR 0x0A]" "Some ''b''"] b
    by blast
  ultimately show ?thesis by (simp add: zeroed_response_def)
qed

subsection \<open>Deleting a header\<close>

lemma del_loop_None: "del_loop h c l = None \<longleftrightarrow> (\<forall>e \<in> set l. \<not> (header e = h \<and> value_str e = c))"
  by (induction l) (auto simp: strcmp_zero)

lemma del_loop_Some:
  "del_loop h c l = Some (l', f) \<Longrightarrow>
     \<exists>pre e post. l = pre @ e # post
       \<and> (\<forall>x \<in> set pre. \<not> (header x = h \<and> value_str x = c))
       \<and> header e = h \<and> value_str e = c
       \<and> l' = pre @ post
       \<and> f = [String_block h, String_block c, Header_block e]"
proof (induction l arbitrary: l')
  case Nil
  then show ?case by simp
next
  case (Cons pos rest)
  show ?case
  proof (cases "header pos = h \<and> value_str pos = c")
    case True
    with Cons.prems have "l' = rest" "f = [String_block h, String_block c, Header_block pos]"
      by (auto simp: strcmp_zero)
    with True have "pos # rest = [] @ pos # rest
       \<and> (\<forall>x \<in> set []. \<not> (header x = h \<and> value_str x = c))
       \<and> header pos = h \<and> value_str pos = c
       \<and> l' = [] @ rest
       \<and> f = [String_block h, String_block c, Header_block pos]"
      by simp
    then show ?thesis by blast
  next
    case False
    with Cons.prems obtain l'' where rec: "del_loop h c rest = Some (l'', f)" and l': "l' = pos # l''"
      by (auto simp: strcmp_zero)
    from Cons.IH [OF rec] obtain pre e post where
      "rest = pre @ e # post" "\<forall>x \<in> set pre. \<not> (header x = h \<and> value_str x = c)"
      "header e = h \<and> value_str e = c" "l'' = pre @ post"
      "f = [String_block h, String_block c, Header_block e]"
      by blast
    with False l' have "pos # rest = (pos # pre) @ e # post
       \<and> (\<forall>x \<in> set (pos # pre). \<not> (header x = h \<and> value_str x = c))
       \<and> header e = h \<and> value_str e = c
       \<and> l' = (pos # pre) @ post
       \<and> f = [String_block h, String_block c, Header_block e]"
      by simp
    then show ?thesis by blast
  qed
qed

text \<open>
  Claim C6. If some entry of the header list has name and value equal, byte for byte, to
  the arguments, \<^verbatim>\<open>MHD_del_response_header\<close> returns \<^verbatim>\<open>MHD_YES\<close> and removes the first such
  entry: the list splits into the entries before it (none of which matches), the entry,
  and the entries after it, and the new list is the entries before followed by the
  entries after, in their old order. If no entry matches, or an argument is \<^verbatim>\<open>NULL\<close>, it
  returns \<^verbatim>\<open>MHD_NO\<close> and the response is unchanged. Matching is equality of strings, so
  it is case-sensitive.
\<close>

theorem del_response_header_first_match:
  "((\<exists>e \<in> set (first_header response). header e = h \<and> value_str e = c) \<longrightarrow>
      (\<exists>pre e post. first_header response = pre @ e # post
         \<and> (\<forall>x \<in> set pre. \<not> (header x = h \<and> value_str x = c))
         \<and> header e = h \<and> value_str e = c
         \<and> MHD_del_response_header response (Some h) (Some c) =
             (MHD_YES, response\<lparr>first_header := pre @ post\<rparr>,
              [String_block h, String_block c, Header_block e])))
   \<and> ((\<forall>e \<in> set (first_header response). \<not> (header e = h \<and> value_str e = c)) \<longrightarrow>
        MHD_del_response_header response (Some h) (Some c) = (MHD_NO, response, []))
   \<and> MHD_del_response_header response None content = (MHD_NO, response, [])
   \<and> MHD_del_response_header response header_arg None = (MHD_NO, response, [])"
proof (intro conjI impI)
  assume "\<exists>e \<in> set (first_header response). header e = h \<and> value_str e = c"
  then have "del_loop h c (first_header response) \<noteq> None"
    by (simp add: del_loop_None)
  then obtain l' f where some: "del_loop h c (first_header response) = Some (l', f)"
    by auto
  from del_loop_Some [OF some] obtain pre e post where
    split: "first_header response = pre @ e # post"
      "\<forall>x \<in> set pre. \<not> (header x = h \<and> value_str x = c)"
      "header e = h \<and> value_str e = c" "l' = pre @ post"
      "f = [String_block h, String_block c, Header_block e]"
    by blast
  from some split(4,5) have "MHD_del_response_header response (Some h) (Some c) =
             (MHD_YES, response\<lparr>first_header := pre @ post\<rparr>,
              [String_block h, String_block c, Header_block e])"
    by (simp add: MHD_del_response_header_def)
  with split(1-3) show "\<exists>pre e post. first_header response = pre @ e # post
         \<and> (\<forall>x \<in> set pre. \<not> (header x = h \<and> value_str x = c))
         \<and> header e = h \<and> value_str e = c
         \<and> MHD_del_response_header response (Some h) (Some c) =
             (MHD_YES, response\<lparr>first_header := pre @ post\<rparr>,
              [String_block h, String_block c, Header_block e])"
    by blast
next
  assume "\<forall>e \<in> set (first_header response). \<not> (header e = h \<and> value_str e = c)"
  then have "del_loop h c (first_header response) = None"
    by (simp add: del_loop_None)
  then show "MHD_del_response_header response (Some h) (Some c) = (MHD_NO, response, [])"
    by (simp add: MHD_del_response_header_def)
next
  show "MHD_del_response_header response None content = (MHD_NO, response, [])"
    by (simp add: MHD_del_response_header_def)
next
  show "MHD_del_response_header response header_arg None = (MHD_NO, response, [])"
    by (simp add: MHD_del_response_header_def split: option.splits)
qed

theorem del_response_header_first_match_witness:
  "(\<exists>pre e post.
      [\<lparr>header = ''A'', value_str = ''1'', kind = MHD_HEADER_KIND\<rparr>,
       \<lparr>header = ''B'', value_str = ''2'', kind = MHD_HEADER_KIND\<rparr>,
       \<lparr>header = ''B'', value_str = ''2'', kind = MHD_COOKIE_KIND\<rparr>] = pre @ e # post
      \<and> (\<forall>x \<in> set pre. \<not> (header x = ''B'' \<and> value_str x = ''2''))
      \<and> header e = ''B'' \<and> value_str e = ''2''
      \<and> MHD_del_response_header
           (zeroed_response\<lparr>first_header :=
              [\<lparr>header = ''A'', value_str = ''1'', kind = MHD_HEADER_KIND\<rparr>,
               \<lparr>header = ''B'', value_str = ''2'', kind = MHD_HEADER_KIND\<rparr>,
               \<lparr>header = ''B'', value_str = ''2'', kind = MHD_COOKIE_KIND\<rparr>]\<rparr>)
           (Some ''B'') (Some ''2'') =
          (MHD_YES, zeroed_response\<lparr>first_header := pre @ post\<rparr>,
           [String_block ''B'', String_block ''2'', Header_block e]))
   \<and> MHD_del_response_header
        (zeroed_response\<lparr>first_header :=
           [\<lparr>header = ''A'', value_str = ''1'', kind = MHD_HEADER_KIND\<rparr>]\<rparr>)
        (Some ''a'') (Some ''1'') =
       (MHD_NO,
        zeroed_response\<lparr>first_header :=
           [\<lparr>header = ''A'', value_str = ''1'', kind = MHD_HEADER_KIND\<rparr>]\<rparr>, [])"
proof -
  let ?R = "zeroed_response\<lparr>first_header :=
              [\<lparr>header = ''A'', value_str = ''1'', kind = MHD_HEADER_KIND\<rparr>,
               \<lparr>header = ''B'', value_str = ''2'', kind = MHD_HEADER_KIND\<rparr>,
               \<lparr>header = ''B'', value_str = ''2'', kind = MHD_COOKIE_KIND\<rparr>]\<rparr>"
  let ?S = "zeroed_response\<lparr>first_header :=
           [\<lparr>header = ''A'', value_str = ''1'', kind = MHD_HEADER_KIND\<rparr>]\<rparr>"
  have hit: "\<exists>e \<in> set (first_header ?R). header e = ''B'' \<and> value_str e = ''2''"
    by simp
  have miss: "\<forall>e \<in> set (first_header ?S). \<not> (header e = ''a'' \<and> value_str e = ''1'')"
    by simp
  from del_response_header_first_match [of ?R "''B''" "''2''"] hit
  have "\<exists>pre e post. first_header ?R = pre @ e # post
         \<and> (\<forall>x \<in> set pre. \<not> (header x = ''B'' \<and> value_str x = ''2''))
         \<and> header e = ''B'' \<and> value_str e = ''2''
         \<and> MHD_del_response_header ?R (Some ''B'') (Some ''2'') =
             (MHD_YES, ?R\<lparr>first_header := pre @ post\<rparr>,
              [String_block ''B'', String_block ''2'', Header_block e])"
    by blast
  moreover from del_response_header_first_match [of ?S "''a''" "''1''"] miss
  have "MHD_del_response_header ?S (Some ''a'') (Some ''1'') = (MHD_NO, ?S, [])"
    by blast
  ultimately show ?thesis by simp
qed

subsection \<open>Iterating over the headers\<close>

lemma get_loop_NULL: "get_loop None cls hs n = (n + int (length hs), cls)"
  by (induction hs arbitrary: n) auto

lemma get_loop_logging:
  "get_loop (Some (logging it)) (cls, calls0) hs n0 = (n, (cls', calls)) \<Longrightarrow>
     \<exists>new. calls = calls0 @ new
       \<and> n = n0 + int (length new)
       \<and> map fst new = take (length new) hs
       \<and> (\<forall>e \<in> set (butlast new). snd e = MHD_YES)
       \<and> (length new < length hs \<longrightarrow> new \<noteq> [] \<and> snd (last new) \<noteq> MHD_YES)
       \<and> get_loop (Some it) cls hs n0 = (n, cls')"
proof (induction hs arbitrary: cls calls0 n0)
  case Nil
  then show ?case by simp
next
  case (Cons pos rest)
  obtain ret cls1 where call: "it cls (kind pos) (header pos) (value_str pos) = (ret, cls1)"
    by (cases "it cls (kind pos) (header pos) (value_str pos)")
  let ?entry = "(pos, ret)"
  have logged: "logging it (cls, calls0) (kind pos) (header pos) (value_str pos) =
      (ret, (cls1, calls0 @ [?entry]))"
    by (simp add: logging_def call)
  show ?case
  proof (cases "MHD_YES = ret")
    case False
    with Cons.prems logged call have res: "n = n0 + 1" "cls' = cls1" "calls = calls0 @ [?entry]"
      by simp_all
    have "calls = calls0 @ [?entry]
       \<and> n = n0 + int (length [?entry])
       \<and> map fst [?entry] = take (length [?entry]) (pos # rest)
       \<and> (\<forall>e \<in> set (butlast [?entry]). snd e = MHD_YES)
       \<and> (length [?entry] < length (pos # rest) \<longrightarrow> [?entry] \<noteq> [] \<and> snd (last [?entry]) \<noteq> MHD_YES)
       \<and> get_loop (Some it) cls (pos # rest) n0 = (n, cls')"
      using res False call by auto
    then show ?thesis by blast
  next
    case True
    with Cons.prems logged have rec:
      "get_loop (Some (logging it)) (cls1, calls0 @ [?entry]) rest (n0 + 1) = (n, (cls', calls))"
      by simp
    from Cons.IH [OF rec] obtain new where new:
      "calls = (calls0 @ [?entry]) @ new"
      "n = (n0 + 1) + int (length new)"
      "map fst new = take (length new) rest"
      "\<forall>e \<in> set (butlast new). snd e = MHD_YES"
      "length new < length rest \<longrightarrow> new \<noteq> [] \<and> snd (last new) \<noteq> MHD_YES"
      "get_loop (Some it) cls1 rest (n0 + 1) = (n, cls')"
      by blast
    have "calls = calls0 @ (?entry # new)
       \<and> n = n0 + int (length (?entry # new))
       \<and> map fst (?entry # new) = take (length (?entry # new)) (pos # rest)
       \<and> (\<forall>e \<in> set (butlast (?entry # new)). snd e = MHD_YES)
       \<and> (length (?entry # new) < length (pos # rest)
            \<longrightarrow> ?entry # new \<noteq> [] \<and> snd (last (?entry # new)) \<noteq> MHD_YES)
       \<and> get_loop (Some it) cls (pos # rest) n0 = (n, cls')"
      using new True call by auto
    then show ?thesis by blast
  qed
qed

text \<open>
  Claim C10. With a \<^verbatim>\<open>NULL\<close> iterator \<^verbatim>\<open>MHD_get_response_headers\<close> returns the number of
  headers in the list and the closure is untouched. With an iterator, the calls made are
  written down by \<open>logging\<close>: they are on a prefix of the header list, in list order, one
  call per header; every call but the last returned \<^verbatim>\<open>MHD_YES\<close>; if the prefix is not the
  whole list, the last call returned something else; and the result is the number of
  calls, the header on which the iterator stopped included. Writing the calls down does
  not change the result or the iterator's own closure.
\<close>

theorem get_response_headers_visits:
  "MHD_get_response_headers response None cls = (int (length (first_header response)), cls)
   \<and> (MHD_get_response_headers response (Some (logging it)) (cls, []) = (n, (cls', calls)) \<longrightarrow>
        n = int (length calls)
        \<and> map fst calls = take (length calls) (first_header response)
        \<and> (\<forall>e \<in> set (butlast calls). snd e = MHD_YES)
        \<and> (length calls < length (first_header response)
             \<longrightarrow> calls \<noteq> [] \<and> snd (last calls) \<noteq> MHD_YES)
        \<and> MHD_get_response_headers response (Some it) cls = (n, cls'))"
proof (intro conjI impI)
  show "MHD_get_response_headers response None cls = (int (length (first_header response)), cls)"
    by (simp add: MHD_get_response_headers_def get_loop_NULL)
next
  assume "MHD_get_response_headers response (Some (logging it)) (cls, []) = (n, (cls', calls))"
  then have "get_loop (Some (logging it)) (cls, []) (first_header response) 0 = (n, (cls', calls))"
    by (simp add: MHD_get_response_headers_def)
  from get_loop_logging [OF this] 
  have all: "n = int (length calls)
        \<and> map fst calls = take (length calls) (first_header response)
        \<and> (\<forall>e \<in> set (butlast calls). snd e = MHD_YES)
        \<and> (length calls < length (first_header response)
             \<longrightarrow> calls \<noteq> [] \<and> snd (last calls) \<noteq> MHD_YES)
        \<and> MHD_get_response_headers response (Some it) cls = (n, cls')"
    by (auto simp: MHD_get_response_headers_def)
  from all show "n = int (length calls)" by blast
  from all show "map fst calls = take (length calls) (first_header response)" by blast
  from all show "\<forall>e \<in> set (butlast calls). snd e = MHD_YES" by blast
  from all show "calls \<noteq> []" if "length calls < length (first_header response)" using that by blast
  from all show "snd (last calls) \<noteq> MHD_YES" if "length calls < length (first_header response)" using that by blast
  from all show "MHD_get_response_headers response (Some it) cls = (n, cls')" by blast
qed

theorem get_response_headers_visits_witness:
  "MHD_get_response_headers
     (zeroed_response\<lparr>first_header :=
        [\<lparr>header = ''A'', value_str = ''1'', kind = MHD_HEADER_KIND\<rparr>,
         \<lparr>header = ''B'', value_str = ''2'', kind = MHD_HEADER_KIND\<rparr>,
         \<lparr>header = ''C'', value_str = ''3'', kind = MHD_HEADER_KIND\<rparr>]\<rparr>)
     (Some (logging (\<lambda>cls k h v. (if h = ''B'' then MHD_NO else MHD_YES, Suc cls)))) (0, []) =
     (2, (2, [(\<lparr>header = ''A'', value_str = ''1'', kind = MHD_HEADER_KIND\<rparr>, MHD_YES),
              (\<lparr>header = ''B'', value_str = ''2'', kind = MHD_HEADER_KIND\<rparr>, MHD_NO)]))
   \<and> MHD_get_response_headers
     (zeroed_response\<lparr>first_header :=
        [\<lparr>header = ''A'', value_str = ''1'', kind = MHD_HEADER_KIND\<rparr>,
         \<lparr>header = ''B'', value_str = ''2'', kind = MHD_HEADER_KIND\<rparr>,
         \<lparr>header = ''C'', value_str = ''3'', kind = MHD_HEADER_KIND\<rparr>]\<rparr>)
     (Some (\<lambda>cls k h v. (if h = ''B'' then MHD_NO else MHD_YES, Suc cls))) 0 = (2, 2)"
proof -
  let ?R = "zeroed_response\<lparr>first_header :=
        [\<lparr>header = ''A'', value_str = ''1'', kind = MHD_HEADER_KIND\<rparr>,
         \<lparr>header = ''B'', value_str = ''2'', kind = MHD_HEADER_KIND\<rparr>,
         \<lparr>header = ''C'', value_str = ''3'', kind = MHD_HEADER_KIND\<rparr>]\<rparr>"
  let ?it = "\<lambda>cls k h v. (if h = ''B'' then MHD_NO else MHD_YES, Suc cls)"
  let ?calls = "[(\<lparr>header = ''A'', value_str = ''1'', kind = MHD_HEADER_KIND\<rparr>, MHD_YES),
              (\<lparr>header = ''B'', value_str = ''2'', kind = MHD_HEADER_KIND\<rparr>, MHD_NO)]"
  have run: "MHD_get_response_headers ?R (Some (logging ?it)) (0, []) = (2, (2, ?calls))"
    by (simp add: MHD_get_response_headers_def logging_def MHD_YES_def MHD_NO_def)
  from get_response_headers_visits [of ?R 0 ?it 2 2 ?calls] run
  have "MHD_get_response_headers ?R (Some ?it) 0 = (2, 2)"
    by blast
  with run show ?thesis by simp
qed

subsection \<open>Adding, then iterating\<close>

lemma add_response_header_cases:
  "MHD_add_response_header (Some r) (Some h) (Some c) = (MHD_NO, Some r)
   \<or> MHD_add_response_header (Some r) (Some h) (Some c) =
       (MHD_YES,
        Some (r\<lparr>first_header :=
                 \<lparr>header = h, value_str = c, kind = MHD_HEADER_KIND\<rparr> # first_header r\<rparr>))"
  unfolding MHD_add_response_header_def by simp

lemma add_headers_step:
  "add_headers r ((h, c) # rest) =
     (if MHD_add_response_header (Some r) (Some h) (Some c) = (MHD_NO, Some r) then None
      else add_headers
             (r\<lparr>first_header :=
                  \<lparr>header = h, value_str = c, kind = MHD_HEADER_KIND\<rparr> # first_header r\<rparr>) rest)"
  using add_response_header_cases [of r h c]
  by (auto simp: MHD_YES_def MHD_NO_def)

lemma add_headers_list:
  "add_headers r ps = Some r' \<Longrightarrow>
     r' = r\<lparr>first_header :=
            map (\<lambda>(h, c). \<lparr>header = h, value_str = c, kind = MHD_HEADER_KIND\<rparr>) (rev ps)
            @ first_header r\<rparr>"
proof (induction ps arbitrary: r)
  case Nil
  then show ?case by simp
next
  case (Cons p ps)
  obtain h c where p: "p = (h, c)" by (cases p)
  let ?r1 = "r\<lparr>first_header := \<lparr>header = h, value_str = c, kind = MHD_HEADER_KIND\<rparr> # first_header r\<rparr>"
  from Cons.prems p have "add_headers ?r1 ps = Some r'"
    by (simp add: add_headers_step del: add_headers.simps(2) split: if_splits)
  from Cons.IH [OF this] p show ?case by simp
qed

lemma get_loop_collect:
  "get_loop (Some collect) acc hs n =
     (n + int (length hs), acc @ map (\<lambda>e. (kind e, header e, value_str e)) hs)"
  by (induction hs arbitrary: acc n) (auto simp: collect_def)

text \<open>
  Claim C3, as amended. After any sequence of successful \<^verbatim>\<open>MHD_add_response_header\<close>
  calls on a response whose header list is empty, iterating with
  \<^verbatim>\<open>MHD_get_response_headers\<close> visits exactly the added (name, value) pairs, each
  unchanged and of kind \<^verbatim>\<open>MHD_HEADER_KIND\<close>, in the reverse of the insertion order: the
  header added last is visited first.
\<close>

theorem headers_visited_in_reverse_insertion_order:
  "first_header r = [] \<Longrightarrow> add_headers r ps = Some r' \<Longrightarrow>
     MHD_get_response_headers r' (Some collect) [] =
       (int (length ps), map (\<lambda>(h, c). (MHD_HEADER_KIND, h, c)) (rev ps))"
proof -
  assume fresh: "first_header r = []" and added: "add_headers r ps = Some r'"
  from add_headers_list [OF added] fresh have
    "first_header r' = map (\<lambda>(h, c). \<lparr>header = h, value_str = c, kind = MHD_HEADER_KIND\<rparr>) (rev ps)"
    by simp
  then show ?thesis
    by (simp add: MHD_get_response_headers_def get_loop_collect split_def comp_def)
qed

theorem headers_visited_in_reverse_insertion_order_witness:
  "add_headers (zeroed_response\<lparr>reference_count := 1\<rparr>) [(''Host'', ''a''), (''Via'', ''b'')] =
     Some (zeroed_response
             \<lparr>first_header :=
                [\<lparr>header = ''Via'', value_str = ''b'', kind = MHD_HEADER_KIND\<rparr>,
                 \<lparr>header = ''Host'', value_str = ''a'', kind = MHD_HEADER_KIND\<rparr>],
              reference_count := 1\<rparr>)
   \<and> MHD_get_response_headers
       (zeroed_response
             \<lparr>first_header :=
                [\<lparr>header = ''Via'', value_str = ''b'', kind = MHD_HEADER_KIND\<rparr>,
                 \<lparr>header = ''Host'', value_str = ''a'', kind = MHD_HEADER_KIND\<rparr>],
              reference_count := 1\<rparr>) (Some collect) [] =
       (2, [(MHD_HEADER_KIND, ''Via'', ''b''), (MHD_HEADER_KIND, ''Host'', ''a'')])"
proof -
  let ?r = "zeroed_response\<lparr>reference_count := 1\<rparr>"
  let ?r' = "zeroed_response
             \<lparr>first_header :=
                [\<lparr>header = ''Via'', value_str = ''b'', kind = MHD_HEADER_KIND\<rparr>,
                 \<lparr>header = ''Host'', value_str = ''a'', kind = MHD_HEADER_KIND\<rparr>],
              reference_count := 1\<rparr>"
  have fresh: "first_header ?r = []"
    by (simp add: zeroed_response_def)
  have added: "add_headers ?r [(''Host'', ''a''), (''Via'', ''b'')] = Some ?r'"
    by (simp add: MHD_add_response_header_def zeroed_response_def strlen_def
        TAB_def CR_def LF_def MHD_YES_def MHD_NO_def)
  from headers_visited_in_reverse_insertion_order [OF fresh added] added
  show ?thesis by simp
qed

text \<open>
  Claim C3 as stated (the header added first is visited first) fails: on the response
  that \<^verbatim>\<open>MHD_create_response_from_data\<close> returns for an empty body, adding \<^verbatim>\<open>Host\<close> and
  then \<^verbatim>\<open>Via\<close> makes the iterator see \<^verbatim>\<open>Via\<close> first.
\<close>

theorem headers_not_visited_in_insertion_order:
  "MHD_create_response_from_data [] 0 0 None 0 0 =
     Inr (Some (zeroed_response\<lparr>reference_count := 1\<rparr>), [])
   \<and> add_headers (zeroed_response\<lparr>reference_count := 1\<rparr>) [(''Host'', ''a''), (''Via'', ''b'')] =
     Some (zeroed_response
             \<lparr>first_header :=
                [\<lparr>header = ''Via'', value_str = ''b'', kind = MHD_HEADER_KIND\<rparr>,
                 \<lparr>header = ''Host'', value_str = ''a'', kind = MHD_HEADER_KIND\<rparr>],
              reference_count := 1\<rparr>)
   \<and> snd (MHD_get_response_headers
       (zeroed_response
             \<lparr>first_header :=
                [\<lparr>header = ''Via'', value_str = ''b'', kind = MHD_HEADER_KIND\<rparr>,
                 \<lparr>header = ''Host'', value_str = ''a'', kind = MHD_HEADER_KIND\<rparr>],
              reference_count := 1\<rparr>) (Some collect) [])
      = [(MHD_HEADER_KIND, ''Via'', ''b''), (MHD_HEADER_KIND, ''Host'', ''a'')]
   \<and> snd (MHD_get_response_headers
       (zeroed_response
             \<lparr>first_header :=
                [\<lparr>header = ''Via'', value_str = ''b'', kind = MHD_HEADER_KIND\<rparr>,
                 \<lparr>header = ''Host'', value_str = ''a'', kind = MHD_HEADER_KIND\<rparr>],
              reference_count := 1\<rparr>) (Some collect) [])
      \<noteq> [(MHD_HEADER_KIND, ''Host'', ''a''), (MHD_HEADER_KIND, ''Via'', ''b'')]"
  by (simp add: MHD_create_response_from_data_def MHD_get_response_headers_def collect_def
      MHD_add_response_header_def zeroed_response_def strlen_def
      TAB_def CR_def LF_def MHD_YES_def MHD_NO_def)

section \<open>Properties of the response life cycle\<close>

subsection \<open>Reference counting\<close>

lemma free_headers_concat:
  "free_headers l =
     concat (map (\<lambda>e. [String_block (header e), String_block (value_str e), Header_block e]) l)"
  by (induction l) simp_all

lemma increment_funpow:
  "(MHD_increment_response_rc ^^ k) r = r\<lparr>reference_count := reference_count r + of_nat k\<rparr>"
  by (induction k) (simp_all add: MHD_increment_response_rc_def)

lemma unat_pred: "(w :: 32 word) \<noteq> 0 \<Longrightarrow> unat (w - 1) = unat w - 1"
  by (simp add: unat_minus_one)

lemma unat_plus_nat:
  "unat (w :: 32 word) + k \<le> 4294967295 \<Longrightarrow> unat (w + of_nat k) = unat w + k"
  by (simp add: unat_word_ariths unat_of_nat)

lemma word_zero_iff: "(w :: 32 word) = 0 \<longleftrightarrow> unat w = 0"
  by (simp add: unat_eq_0)

text \<open>
  Claim C2, as amended. For a response whose \<^verbatim>\<open>reference_count\<close> is at least one,
  \<^verbatim>\<open>MHD_destroy_response\<close> decrements the count by one. If the decremented count is not
  zero nothing is freed and the response differs from the old one in \<^verbatim>\<open>reference_count\<close>
  only. If it is zero, the two strings and the node of every header and then the response
  object are freed. \<^verbatim>\<open>MHD_increment_response_rc\<close> changes \<^verbatim>\<open>reference_count\<close> only, and
  increases it by one as long as it is below 4294967295, the largest value of the
  counter; so a response with count \<open>n\<close> that is queued against \<open>k\<close> connections, with
  \<open>n + k\<close> at most 4294967295, has the count \<open>n + k\<close>, which is at least \<open>k\<close>, and a
  destroy that follows an increment frees nothing and gives the response back as it was.
\<close>

theorem destroy_response_reference_count:
  assumes "1 \<le> unat (reference_count r)"
  shows "unat (reference_count r - 1) = unat (reference_count r) - 1
       \<and> (unat (reference_count r) - 1 \<noteq> 0 \<longrightarrow>
            MHD_destroy_response (Some r) =
              (Some (r\<lparr>reference_count := reference_count r - 1\<rparr>), []))
       \<and> (unat (reference_count r) - 1 = 0 \<longrightarrow>
            MHD_destroy_response (Some r) =
              (None,
               concat (map (\<lambda>e. [String_block (header e), String_block (value_str e),
                                   Header_block e]) (first_header r))
               @ [Response_block]))
       \<and> MHD_increment_response_rc r = r\<lparr>reference_count := reference_count r + 1\<rparr>
       \<and> (unat (reference_count r) + k \<le> 4294967295 \<longrightarrow>
            (MHD_increment_response_rc ^^ k) r =
              r\<lparr>reference_count := reference_count r + of_nat k\<rparr>
            \<and> unat (reference_count ((MHD_increment_response_rc ^^ k) r)) =
                unat (reference_count r) + k
            \<and> k \<le> unat (reference_count ((MHD_increment_response_rc ^^ k) r)))
       \<and> (unat (reference_count r) < 4294967295 \<longrightarrow>
            unat (reference_count (MHD_increment_response_rc r)) = unat (reference_count r) + 1
            \<and> MHD_destroy_response (Some (MHD_increment_response_rc r)) = (Some r, []))"
proof -
  from assms have nz: "reference_count r \<noteq> 0"
    by (auto simp: word_zero_iff)
  have dec: "unat (reference_count r - 1) = unat (reference_count r) - 1"
    using nz by (rule unat_pred)
  have zero_iff: "reference_count r - 1 = 0 \<longleftrightarrow> unat (reference_count r) - 1 = 0"
    using dec by (simp add: word_zero_iff)
  have keep: "MHD_destroy_response (Some r) =
              (Some (r\<lparr>reference_count := reference_count r - 1\<rparr>), [])"
    if "unat (reference_count r) - 1 \<noteq> 0"
    using that zero_iff by (simp add: MHD_destroy_response_def)
  have free: "MHD_destroy_response (Some r) =
              (None,
               concat (map (\<lambda>e. [String_block (header e), String_block (value_str e),
                                   Header_block e]) (first_header r))
               @ [Response_block])"
    if "unat (reference_count r) - 1 = 0"
    using that zero_iff by (simp add: MHD_destroy_response_def free_headers_concat)
  have inc: "MHD_increment_response_rc r = r\<lparr>reference_count := reference_count r + 1\<rparr>"
    by (simp add: MHD_increment_response_rc_def)
  have many: "(MHD_increment_response_rc ^^ k) r =
              r\<lparr>reference_count := reference_count r + of_nat k\<rparr>
            \<and> unat (reference_count ((MHD_increment_response_rc ^^ k) r)) =
                unat (reference_count r) + k
            \<and> k \<le> unat (reference_count ((MHD_increment_response_rc ^^ k) r))"
    if "unat (reference_count r) + k \<le> 4294967295"
    using unat_plus_nat [OF that] by (simp add: increment_funpow)
  have undo: "unat (reference_count (MHD_increment_response_rc r)) = unat (reference_count r) + 1
            \<and> MHD_destroy_response (Some (MHD_increment_response_rc r)) = (Some r, [])"
    if "unat (reference_count r) < 4294967295"
  proof -
    from that have le: "unat (reference_count r) + 1 \<le> 4294967295" by simp
    from unat_plus_nat [OF le] have u: "unat (reference_count r + 1) = unat (reference_count r) + 1"
      by simp
    then have "reference_count r + 1 \<noteq> 0"
      by (auto simp: word_zero_iff)
    with u nz show ?thesis
      by (simp add: MHD_destroy_response_def MHD_increment_response_rc_def)
  qed
  from dec keep free inc many undo show ?thesis by blast
qed

theorem destroy_response_reference_count_witness:
  "MHD_destroy_response
     (Some (zeroed_response
              \<lparr>first_header := [\<lparr>header = ''A'', value_str = ''1'', kind = MHD_HEADER_KIND\<rparr>],
               reference_count := 2\<rparr>)) =
     (Some (zeroed_response
              \<lparr>first_header := [\<lparr>header = ''A'', value_str = ''1'', kind = MHD_HEADER_KIND\<rparr>],
               reference_count := 1\<rparr>), [])
   \<and> MHD_destroy_response
     (Some (zeroed_response
              \<lparr>first_header := [\<lparr>header = ''A'', value_str = ''1'', kind = MHD_HEADER_KIND\<rparr>],
               reference_count := 1\<rparr>)) =
     (None,
      [String_block ''A'', String_block ''1'',
       Header_block \<lparr>header = ''A'', value_str = ''1'', kind = MHD_HEADER_KIND\<rparr>,
       Response_block])
   \<and> unat (reference_count
       ((MHD_increment_response_rc ^^ 3) (zeroed_response\<lparr>reference_count := 1\<rparr>))) = 4"
proof -
  let ?h = "[\<lparr>header = ''A'', value_str = ''1'', kind = MHD_HEADER_KIND\<rparr>]"
  let ?r2 = "zeroed_response\<lparr>first_header := ?h, reference_count := 2\<rparr>"
  let ?r1 = "zeroed_response\<lparr>first_header := ?h, reference_count := 1\<rparr>"
  let ?r0 = "zeroed_response\<lparr>reference_count := 1\<rparr>"
  have two: "1 \<le> unat (reference_count ?r2)" and one: "1 \<le> unat (reference_count ?r1)"
    and zero: "1 \<le> unat (reference_count ?r0)"
    by simp_all
  have room: "unat (reference_count ?r0) + 3 \<le> 4294967295" by simp
  from destroy_response_reference_count [OF two, of 0]
  have "MHD_destroy_response (Some ?r2) = (Some ?r1, [])"
    by simp
  moreover from destroy_response_reference_count [OF one, of 0]
  have "MHD_destroy_response (Some ?r1) =
     (None,
      [String_block ''A'', String_block ''1'',
       Header_block \<lparr>header = ''A'', value_str = ''1'', kind = MHD_HEADER_KIND\<rparr>,
       Response_block])"
    by simp
  moreover from destroy_response_reference_count [OF zero, of 3] room
  have "unat (reference_count ((MHD_increment_response_rc ^^ 3) ?r0)) = 4"
    by simp
  ultimately show ?thesis by blast
qed

text \<open>
  Claim C2 as stated (every increment increases the count by one) fails at the largest
  value of the counter: a response with the count 4294967295 has the count 0 after
  \<^verbatim>\<open>MHD_increment_response_rc\<close>, which is below the one connection it was queued against.
\<close>

theorem reference_count_wraps_at_maximum:
  "1 \<le> unat (reference_count (zeroed_response\<lparr>reference_count := 4294967295\<rparr>))
   \<and> reference_count
       (MHD_increment_response_rc (zeroed_response\<lparr>reference_count := 4294967295\<rparr>)) = 0
   \<and> \<not> 1 \<le> unat (reference_count
       (MHD_increment_response_rc (zeroed_response\<lparr>reference_count := 4294967295\<rparr>)))"
  by (simp add: MHD_increment_response_rc_def)

subsection \<open>Creating a response from bytes\<close>

lemma fold_max_ge: "b \<le> fold max xs (b::nat)"
  by (induction xs arbitrary: b) (auto intro: order_trans [OF max.cobounded2])

lemma fold_max_upper: "a \<in> set xs \<Longrightarrow> a \<le> fold max xs (b::nat)"
proof (induction xs arbitrary: b)
  case Nil
  then show ?case by simp
next
  case (Cons x xs)
  show ?case
  proof (cases "a = x")
    case True
    have "x \<le> max x b" by simp
    also have "\<dots> \<le> fold max xs (max x b)" by (rule fold_max_ge)
    finally show ?thesis using True by simp
  next
    case False
    with Cons.prems have "a \<in> set xs" by simp
    from Cons.IH [OF this] show ?thesis by simp
  qed
qed

lemma malloc_fresh: "malloc mem n = (p, mem1) \<Longrightarrow> p \<notin> fst ` set mem"
proof
  assume m: "malloc mem n = (p, mem1)" and "p \<in> fst ` set mem"
  then have "p \<in> set (map fst mem)" by simp
  from fold_max_upper [OF this] have "p \<le> fold max (map fst mem) 0" .
  moreover from m have "p = Suc (fold max (map fst mem) 0)"
    by (simp add: malloc_def Let_def)
  ultimately show False by simp
qed

lemma malloc_block: "malloc mem n = (p, mem1) \<Longrightarrow> mem1 = (p, replicate n (CHR 0x00)) # mem"
  by (auto simp: malloc_def Let_def)

lemma write_bytes_other: "dst \<notin> fst ` set mem \<Longrightarrow> write_bytes mem dst bytes = mem"
  unfolding write_bytes_def by (induction mem) auto

lemma copy_step:
  assumes blk: "map_of mem a = Some bytes" and len: "n \<le> length bytes"
    and m: "malloc mem n = (tmp, mem1)"
  shows "memcpy mem1 tmp (Some a) n = Inr ((tmp, take n bytes) # mem)"
proof -
  from malloc_fresh [OF m] have fresh: "tmp \<notin> fst ` set mem" .
  from blk have "a \<in> dom (map_of mem)" by blast
  then have "a \<in> fst ` set mem" by (simp add: dom_map_of_conv_image_fst)
  with fresh have ne: "a \<noteq> tmp" by blast
  from malloc_block [OF m] have mem1: "mem1 = (tmp, replicate n (CHR 0x00)) # mem" .
  from ne blk len have "read_bytes mem1 (Some a) n = Some (take n bytes)"
    by (simp add: read_bytes_def mem1)
  moreover from len have "write_bytes mem1 tmp (take n bytes) = (tmp, take n bytes) # mem"
    using write_bytes_other [OF fresh, of "take n bytes"]
    by (simp add: mem1 write_bytes_def)
  ultimately show ?thesis by (simp add: memcpy_def)
qed

text \<open>
  Claim C9, as amended. \<^verbatim>\<open>MHD_create_response_from_data\<close> returns \<^verbatim>\<open>NULL\<close> exactly when
  \<^verbatim>\<open>data\<close> is \<^verbatim>\<open>NULL\<close> with \<^verbatim>\<open>size > 0\<close>, or \<^verbatim>\<open>pthread_mutex_init\<close> fails; so a zero-size
  response with \<^verbatim>\<open>NULL\<close> data succeeds when the mutex can be set up. When \<^verbatim>\<open>must_copy\<close> is
  set, \<^verbatim>\<open>size > 0\<close> and \<^verbatim>\<open>data\<close> addresses at least \<^verbatim>\<open>size\<close> bytes, the response holds a
  private copy of the first \<^verbatim>\<open>size\<close> bytes in a newly allocated block, which is not the
  caller's buffer, and records \<^verbatim>\<open>free\<close> as the free hook with the copy as its argument;
  the response holds no pointer to the caller's buffer, whatever \<^verbatim>\<open>must_free\<close> is, and the
  caller's blocks are unchanged. Every created response has \<^verbatim>\<open>reference_count\<close> 1,
  \<^verbatim>\<open>total_size\<close> equal to \<^verbatim>\<open>size\<close>, no content reader and an empty header list.
\<close>

theorem create_response_from_data_result:
  "((\<exists>mem'. MHD_create_response_from_data mem mutex_init_result n data_arg must_free must_copy
              = Inr (None, mem'))
      \<longleftrightarrow> (data_arg = None \<and> 0 < n) \<or> mutex_init_result \<noteq> 0)
   \<and> (mutex_init_result = 0 \<and> must_copy \<noteq> 0 \<and> 0 < n
        \<and> data_arg = Some a \<and> map_of mem a = Some bytes \<and> n \<le> length bytes
      \<longrightarrow> (\<exists>tmp. tmp \<notin> fst ` set mem
             \<and> MHD_create_response_from_data mem mutex_init_result n data_arg must_free must_copy =
                 Inr (Some \<lparr>first_header = [], data = Some tmp, crc_cls = Some tmp, crc = None,
                            crfc = Some libc_free, reference_count = 1, total_size = n,
                            data_size = n\<rparr>,
                      (tmp, take n bytes) # mem)))
   \<and> (MHD_create_response_from_data mem mutex_init_result n data_arg must_free must_copy
         = Inr (Some r, mem')
      \<longrightarrow> reference_count r = 1 \<and> total_size r = n \<and> crc r = None \<and> first_header r = [])"
proof (intro conjI)
  let ?res = "MHD_create_response_from_data mem mutex_init_result n data_arg must_free must_copy"
  show "(\<exists>mem'. ?res = Inr (None, mem')) \<longleftrightarrow> (data_arg = None \<and> 0 < n) \<or> mutex_init_result \<noteq> 0"
    by (auto simp: MHD_create_response_from_data_def split: sum.splits prod.splits if_splits)
next
  let ?res = "MHD_create_response_from_data mem mutex_init_result n data_arg must_free must_copy"
  show "mutex_init_result = 0 \<and> must_copy \<noteq> 0 \<and> 0 < n
        \<and> data_arg = Some a \<and> map_of mem a = Some bytes \<and> n \<le> length bytes
      \<longrightarrow> (\<exists>tmp. tmp \<notin> fst ` set mem
             \<and> ?res =
                 Inr (Some \<lparr>first_header = [], data = Some tmp, crc_cls = Some tmp, crc = None,
                            crfc = Some libc_free, reference_count = 1, total_size = n,
                            data_size = n\<rparr>,
                      (tmp, take n bytes) # mem))"
  proof
    assume h: "mutex_init_result = 0 \<and> must_copy \<noteq> 0 \<and> 0 < n
        \<and> data_arg = Some a \<and> map_of mem a = Some bytes \<and> n \<le> length bytes"
    obtain tmp mem1 where m: "malloc mem n = (tmp, mem1)" by (cases "malloc mem n")
    from h have blk: "map_of mem a = Some bytes" and len: "n \<le> length bytes" by simp_all
    from copy_step [OF blk len m] h m have
      "?res = Inr (Some \<lparr>first_header = [], data = Some tmp, crc_cls = Some tmp, crc = None,
                            crfc = Some libc_free, reference_count = 1, total_size = n,
                            data_size = n\<rparr>,
                      (tmp, take n bytes) # mem)"
      by (simp add: MHD_create_response_from_data_def zeroed_response_def)
    with malloc_fresh [OF m] show "\<exists>tmp. tmp \<notin> fst ` set mem
             \<and> ?res =
                 Inr (Some \<lparr>first_header = [], data = Some tmp, crc_cls = Some tmp, crc = None,
                            crfc = Some libc_free, reference_count = 1, total_size = n,
                            data_size = n\<rparr>,
                      (tmp, take n bytes) # mem)"
      by blast
  qed
next
  let ?res = "MHD_create_response_from_data mem mutex_init_result n data_arg must_free must_copy"
  show "?res = Inr (Some r, mem')
      \<longrightarrow> reference_count r = 1 \<and> total_size r = n \<and> crc r = None \<and> first_header r = []"
    by (auto simp: MHD_create_response_from_data_def zeroed_response_def
        split: sum.splits prod.splits if_splits)
qed

theorem create_response_from_data_result_witness:
  "(\<exists>tmp. tmp \<notin> fst ` set [(1, ''hello'')]
      \<and> MHD_create_response_from_data [(1, ''hello'')] 0 3 (Some 1) 0 1 =
          Inr (Some \<lparr>first_header = [], data = Some tmp, crc_cls = Some tmp, crc = None,
                     crfc = Some libc_free, reference_count = 1, total_size = 3,
                     data_size = 3\<rparr>,
               (tmp, take 3 ''hello'') # [(1, ''hello'')]))
   \<and> (\<exists>mem'. MHD_create_response_from_data [] 0 2 None 0 0 = Inr (None, mem'))
   \<and> \<not> (\<exists>mem'. MHD_create_response_from_data [] 0 0 None 0 0 = Inr (None, mem'))"
proof -
  have h: "(0::int) = 0 \<and> (1::int) \<noteq> 0 \<and> 0 < (3::nat)
        \<and> Some (1::nat) = Some 1 \<and> map_of [(1::nat, ''hello'')] 1 = Some ''hello''
        \<and> 3 \<le> length ''hello''"
    by simp
  from create_response_from_data_result [of "[(1, ''hello'')]" 0 3 "Some 1" 0 1 1 "''hello''"] h
  have "\<exists>tmp. tmp \<notin> fst ` set [(1, ''hello'')]
      \<and> MHD_create_response_from_data [(1, ''hello'')] 0 3 (Some 1) 0 1 =
          Inr (Some \<lparr>first_header = [], data = Some tmp, crc_cls = Some tmp, crc = None,
                     crfc = Some libc_free, reference_count = 1, total_size = 3,
                     data_size = 3\<rparr>,
               (tmp, take 3 ''hello'') # [(1, ''hello'')])"
    by blast
  moreover from create_response_from_data_result [of "[]" 0 2 None 0 0]
  have "\<exists>mem'. MHD_create_response_from_data [] 0 2 None 0 0 = Inr (None, mem')"
    by simp
  moreover from create_response_from_data_result [of "[]" 0 0 None 0 0]
  have "\<not> (\<exists>mem'. MHD_create_response_from_data [] 0 0 None 0 0 = Inr (None, mem'))"
    by simp
  ultimately show ?thesis by blast
qed

text \<open>
  Claim C9 as stated (\<^verbatim>\<open>NULL\<close> is returned only when \<^verbatim>\<open>data\<close> is \<^verbatim>\<open>NULL\<close> and \<^verbatim>\<open>size > 0\<close>)
  fails: with three readable bytes at \<^verbatim>\<open>data\<close> and \<^verbatim>\<open>pthread_mutex_init\<close> returning 11, the
  result is \<^verbatim>\<open>NULL\<close>.
\<close>

theorem mutex_failure_returns_null:
  "MHD_create_response_from_data [(1, ''abc'')] 11 3 (Some 1) 0 0 = Inr (None, [(1, ''abc'')])"
  by (simp add: MHD_create_response_from_data_def)

section \<open>Properties of the TLS adapter\<close>

lemma tls_close_unfold:
  "MHD_tls_connection_close c code =
     c\<lparr>state := MHD_CONNECTION_CLOSED, socket_fd := - 1, pool_live := False,
       trace := trace c @ [Gnutls_bye, Notify_completed code]\<rparr>"
  by (simp add: MHD_tls_connection_close_def MHD_connection_close_def)

subsection \<open>The handshake\<close>

text \<open>
  Claim C1. For a connection in state \<^verbatim>\<open>MHD_TLS_CONNECTION_INIT\<close>, one step of the read
  handler or of the write handler calls the handshake primitive (the call is the first
  new entry of the trace). If the handshake returns success, the state becomes
  \<^verbatim>\<open>MHD_CONNECTION_INIT\<close> and the handler returns \<^verbatim>\<open>MHD_YES\<close>. If it returns again or
  interrupted, the state stays \<^verbatim>\<open>MHD_TLS_CONNECTION_INIT\<close> and the handler returns
  \<^verbatim>\<open>MHD_YES\<close>. For any other result the connection is closed through
  \<^verbatim>\<open>MHD_tls_connection_close\<close> with the termination code with-error and the handler
  returns \<^verbatim>\<open>MHD_NO\<close>.
\<close>

theorem tls_handshake_step:
  assumes "state c = MHD_TLS_CONNECTION_INIT"
    and "f = MHD_tls_connection_handle_read plain \<or> f = MHD_tls_connection_handle_write plain"
  shows "(ret = GNUTLS_E_SUCCESS \<longrightarrow>
            f now ret c =
              (MHD_YES,
               c\<lparr>state := MHD_CONNECTION_INIT, last_activity := now,
                 trace := trace c @ [Gnutls_handshake]\<rparr>))
       \<and> (ret = GNUTLS_E_AGAIN \<or> ret = GNUTLS_E_INTERRUPTED \<longrightarrow>
            f now ret c =
              (MHD_YES,
               c\<lparr>last_activity := now, trace := trace c @ [Gnutls_handshake]\<rparr>))
       \<and> (ret \<noteq> GNUTLS_E_SUCCESS \<and> ret \<noteq> GNUTLS_E_AGAIN \<and> ret \<noteq> GNUTLS_E_INTERRUPTED \<longrightarrow>
            f now ret c =
              (MHD_NO,
               MHD_tls_connection_close
                 (c\<lparr>last_activity := now, trace := trace c @ [Gnutls_handshake]\<rparr>)
                 MHD_REQUEST_TERMINATED_WITH_ERROR)
            \<and> state (snd (f now ret c)) = MHD_CONNECTION_CLOSED
            \<and> trace (snd (f now ret c)) =
                trace c @ [Gnutls_handshake, Gnutls_bye,
                           Notify_completed MHD_REQUEST_TERMINATED_WITH_ERROR])"
proof -
  have rw: "MHD_tls_connection_handle_write plain now ret c =
            MHD_tls_connection_handle_read plain now ret c"
    by (simp add: MHD_tls_connection_handle_write_def MHD_tls_connection_handle_read_def)
  from assms(2) rw have f: "f now ret c = MHD_tls_connection_handle_read plain now ret c"
    by auto
  have distinct: "GNUTLS_E_SUCCESS \<noteq> GNUTLS_E_AGAIN" "GNUTLS_E_SUCCESS \<noteq> GNUTLS_E_INTERRUPTED"
    by (simp_all add: GNUTLS_E_SUCCESS_def GNUTLS_E_AGAIN_def GNUTLS_E_INTERRUPTED_def)
  show ?thesis
    unfolding f using assms(1) distinct
    by (auto simp: MHD_tls_connection_handle_read_def Let_def tls_close_unfold)
qed

theorem tls_handshake_step_witness:
  "MHD_tls_connection_handle_read (Pair MHD_YES) 7 GNUTLS_E_SUCCESS
     \<lparr>daemon = \<lparr>connection_timeout = 0\<rparr>, state = MHD_TLS_CONNECTION_INIT, socket_fd = 4,
      last_activity = 5, pool_live = True, trace = []\<rparr> =
     (MHD_YES,
      \<lparr>daemon = \<lparr>connection_timeout = 0\<rparr>, state = MHD_CONNECTION_INIT, socket_fd = 4,
       last_activity = 7, pool_live = True, trace = [Gnutls_handshake]\<rparr>)
   \<and> MHD_tls_connection_handle_write (Pair MHD_YES) 7 GNUTLS_E_AGAIN
     \<lparr>daemon = \<lparr>connection_timeout = 0\<rparr>, state = MHD_TLS_CONNECTION_INIT, socket_fd = 4,
      last_activity = 5, pool_live = True, trace = []\<rparr> =
     (MHD_YES,
      \<lparr>daemon = \<lparr>connection_timeout = 0\<rparr>, state = MHD_TLS_CONNECTION_INIT, socket_fd = 4,
       last_activity = 7, pool_live = True, trace = [Gnutls_handshake]\<rparr>)
   \<and> MHD_tls_connection_handle_read (Pair MHD_YES) 7 (- 12)
     \<lparr>daemon = \<lparr>connection_timeout = 0\<rparr>, state = MHD_TLS_CONNECTION_INIT, socket_fd = 4,
      last_activity = 5, pool_live = True, trace = []\<rparr> =
     (MHD_NO,
      \<lparr>daemon = \<lparr>connection_timeout = 0\<rparr>, state = MHD_CONNECTION_CLOSED, socket_fd = - 1,
       last_activity = 7, pool_live = False,
       trace = [Gnutls_handshake, Gnutls_bye,
                Notify_completed MHD_REQUEST_TERMINATED_WITH_ERROR]\<rparr>)"
proof -
  let ?c = "\<lparr>daemon = \<lparr>connection_timeout = 0\<rparr>, state = MHD_TLS_CONNECTION_INIT, socket_fd = 4,
      last_activity = 5, pool_live = True, trace = []\<rparr>"
  let ?rd = "MHD_tls_connection_handle_read (Pair MHD_YES)"
  let ?wr = "MHD_tls_connection_handle_write (Pair MHD_YES)"
  have st: "state ?c = MHD_TLS_CONNECTION_INIT" by simp
  have rd: "?rd = MHD_tls_connection_handle_read (Pair MHD_YES) \<or> ?rd = MHD_tls_connection_handle_write (Pair MHD_YES)"
    by simp
  have wr: "?wr = MHD_tls_connection_handle_read (Pair MHD_YES) \<or> ?wr = MHD_tls_connection_handle_write (Pair MHD_YES)"
    by simp
  have other: "(- 12 :: int) \<noteq> GNUTLS_E_SUCCESS \<and> - 12 \<noteq> GNUTLS_E_AGAIN \<and> - 12 \<noteq> GNUTLS_E_INTERRUPTED"
    by (simp add: GNUTLS_E_SUCCESS_def GNUTLS_E_AGAIN_def GNUTLS_E_INTERRUPTED_def)
  from tls_handshake_step [OF st rd, of GNUTLS_E_SUCCESS 7]
  have "?rd 7 GNUTLS_E_SUCCESS ?c =
     (MHD_YES, ?c\<lparr>state := MHD_CONNECTION_INIT, last_activity := 7,
                  trace := trace ?c @ [Gnutls_handshake]\<rparr>)"
    by blast
  moreover from tls_handshake_step [OF st wr, of GNUTLS_E_AGAIN 7]
  have "?wr 7 GNUTLS_E_AGAIN ?c =
     (MHD_YES, ?c\<lparr>last_activity := 7, trace := trace ?c @ [Gnutls_handshake]\<rparr>)"
    by blast
  moreover from tls_handshake_step [OF st rd, of "- 12" 7] other
  have "?rd 7 (- 12) ?c =
     (MHD_NO, MHD_tls_connection_close
                 (?c\<lparr>last_activity := 7, trace := trace ?c @ [Gnutls_handshake]\<rparr>)
                 MHD_REQUEST_TERMINATED_WITH_ERROR)"
    by blast
  ultimately show ?thesis
    by (simp add: MHD_tls_connection_close_def MHD_connection_close_def)
qed

subsection \<open>The idle timeout\<close>

lemma apply_outcome_timeout_closes:
  "timeout_closes (snd (apply_outcome machine c)) = timeout_closes c"
  by (cases machine) (simp_all add: timeout_closes_def MHD_connection_close_def)

lemma plain_idle_timeout_closes:
  assumes "now - last_activity c \<le> int (connection_timeout (daemon c))"
  shows "timeout_closes (snd (MHD_connection_handle_idle machine now c)) = timeout_closes c"
  using assms
  by (simp add: MHD_connection_handle_idle_def apply_outcome_timeout_closes)

text \<open>
  Claim C4, as amended. For a connection with an open socket and a configured timeout
  other than zero, if \<open>now - last_activity > timeout\<close> the idle step closes the
  connection with the termination code timeout and returns \<^verbatim>\<open>MHD_NO\<close>. For a connection
  with an open socket and any configured timeout, if \<open>now - last_activity \<le> timeout\<close> the
  idle step does not close the connection for timeout: the trace of the connection after
  the step, the plain idle handler included, holds as many closes with the termination
  code timeout as before. The last part gives what \<^verbatim>\<open>MHD_tls_connection_handle_idle\<close>
  itself returns when its own timeout test does not fire, for any plain handler.
\<close>

theorem tls_idle_timeout:
  assumes "socket_fd c \<noteq> - 1"
  shows "(connection_timeout (daemon c) \<noteq> 0
            \<and> now - last_activity c > int (connection_timeout (daemon c)) \<longrightarrow>
            MHD_tls_connection_handle_idle plain now c =
              (MHD_NO,
               MHD_tls_connection_close c MHD_REQUEST_TERMINATED_TIMEOUT_REACHED)
            \<and> state (snd (MHD_tls_connection_handle_idle plain now c)) = MHD_CONNECTION_CLOSED
            \<and> trace (snd (MHD_tls_connection_handle_idle plain now c)) =
                trace c @ [Gnutls_bye,
                           Notify_completed MHD_REQUEST_TERMINATED_TIMEOUT_REACHED])
       \<and> (now - last_activity c \<le> int (connection_timeout (daemon c)) \<longrightarrow>
            timeout_closes
              (snd (MHD_tls_connection_handle_idle
                      (MHD_connection_handle_idle machine now) now c)) = timeout_closes c)
       \<and> (connection_timeout (daemon c) = 0
            \<or> now - last_activity c \<le> int (connection_timeout (daemon c)) \<longrightarrow>
            MHD_tls_connection_handle_idle plain now c =
              (if state c = MHD_TLS_CONNECTION_INIT then (MHD_YES, c)
               else if state c = MHD_CONNECTION_CLOSED
               then (MHD_NO,
                     MHD_tls_connection_close c MHD_REQUEST_TERMINATED_COMPLETED_OK)
               else plain c))"
proof -
  have own: "MHD_tls_connection_handle_idle h now c =
              (if state c = MHD_TLS_CONNECTION_INIT then (MHD_YES, c)
               else if state c = MHD_CONNECTION_CLOSED
               then (MHD_NO,
                     MHD_tls_connection_close c MHD_REQUEST_TERMINATED_COMPLETED_OK)
               else h c)"
    if "connection_timeout (daemon c) = 0
            \<or> now - last_activity c \<le> int (connection_timeout (daemon c))" for h
  proof -
    from that have no: "\<not> (socket_fd c \<noteq> - 1 \<and> connection_timeout (daemon c) \<noteq> 0
            \<and> now - int (connection_timeout (daemon c)) > last_activity c)"
      by auto
    show ?thesis
      unfolding MHD_tls_connection_handle_idle_def Let_def if_not_P [OF no]
      using assms by (cases "state c") simp_all
  qed
  have late: "MHD_tls_connection_handle_idle plain now c =
              (MHD_NO,
               MHD_tls_connection_close c MHD_REQUEST_TERMINATED_TIMEOUT_REACHED)
            \<and> state (snd (MHD_tls_connection_handle_idle plain now c)) = MHD_CONNECTION_CLOSED
            \<and> trace (snd (MHD_tls_connection_handle_idle plain now c)) =
                trace c @ [Gnutls_bye,
                           Notify_completed MHD_REQUEST_TERMINATED_TIMEOUT_REACHED]"
    if "connection_timeout (daemon c) \<noteq> 0
            \<and> now - last_activity c > int (connection_timeout (daemon c))"
  proof -
    from that assms have res: "MHD_tls_connection_handle_idle plain now c =
              (MHD_NO,
               MHD_tls_connection_close c MHD_REQUEST_TERMINATED_TIMEOUT_REACHED)"
      by (simp add: MHD_tls_connection_handle_idle_def Let_def)
    then show ?thesis by (simp add: tls_close_unfold)
  qed
  have quiet: "timeout_closes
              (snd (MHD_tls_connection_handle_idle
                      (MHD_connection_handle_idle machine now) now c)) = timeout_closes c"
    if le: "now - last_activity c \<le> int (connection_timeout (daemon c))"
  proof -
    from le have "connection_timeout (daemon c) = 0
            \<or> now - last_activity c \<le> int (connection_timeout (daemon c))"
      by simp
    from own [OF this, of "MHD_connection_handle_idle machine now"]
    show ?thesis
      using plain_idle_timeout_closes [OF le, of machine]
      by (simp add: tls_close_unfold timeout_closes_def)
  qed
  from own [of plain] late quiet show ?thesis by blast
qed

theorem tls_idle_timeout_witness:
  "MHD_tls_connection_handle_idle (MHD_connection_handle_idle (Advance MHD_CONNECTION_BODY_SENT) 100) 100
       \<lparr>daemon = \<lparr>connection_timeout = 30\<rparr>, state = MHD_CONNECTION_HEADERS_SENT, socket_fd = 4,
        last_activity = 10, pool_live = True, trace = []\<rparr> =
     (MHD_NO,
      \<lparr>daemon = \<lparr>connection_timeout = 30\<rparr>, state = MHD_CONNECTION_CLOSED, socket_fd = - 1,
       last_activity = 10, pool_live = False,
       trace = [Gnutls_bye, Notify_completed MHD_REQUEST_TERMINATED_TIMEOUT_REACHED]\<rparr>)
   \<and> timeout_closes
       (snd (MHD_tls_connection_handle_idle
               (MHD_connection_handle_idle (Advance MHD_CONNECTION_BODY_SENT) 100) 100
               \<lparr>daemon = \<lparr>connection_timeout = 30\<rparr>, state = MHD_CONNECTION_HEADERS_SENT,
                socket_fd = 4, last_activity = 70, pool_live = True, trace = []\<rparr>)) = 0
   \<and> MHD_tls_connection_handle_idle (MHD_connection_handle_idle (Advance MHD_CONNECTION_BODY_SENT) 100) 100
       \<lparr>daemon = \<lparr>connection_timeout = 30\<rparr>, state = MHD_TLS_CONNECTION_INIT, socket_fd = 4,
        last_activity = 70, pool_live = True, trace = []\<rparr> =
     (MHD_YES,
      \<lparr>daemon = \<lparr>connection_timeout = 30\<rparr>, state = MHD_TLS_CONNECTION_INIT, socket_fd = 4,
       last_activity = 70, pool_live = True, trace = []\<rparr>)"
proof -
  let ?plain = "MHD_connection_handle_idle (Advance MHD_CONNECTION_BODY_SENT) 100"
  let ?late = "\<lparr>daemon = \<lparr>connection_timeout = 30\<rparr>, state = MHD_CONNECTION_HEADERS_SENT,
        socket_fd = 4, last_activity = 10, pool_live = True, trace = []\<rparr>"
  let ?busy = "\<lparr>daemon = \<lparr>connection_timeout = 30\<rparr>, state = MHD_CONNECTION_HEADERS_SENT,
        socket_fd = 4, last_activity = 70, pool_live = True, trace = []\<rparr>"
  let ?live = "\<lparr>daemon = \<lparr>connection_timeout = 30\<rparr>, state = MHD_TLS_CONNECTION_INIT,
        socket_fd = 4, last_activity = 70, pool_live = True, trace = []\<rparr>"
  have open1: "socket_fd ?late \<noteq> - 1" and open2: "socket_fd ?busy \<noteq> - 1"
    and open3: "socket_fd ?live \<noteq> - 1"
    by simp_all
  have expired: "connection_timeout (daemon ?late) \<noteq> 0
      \<and> 100 - last_activity ?late > int (connection_timeout (daemon ?late))"
    by simp
  have recent: "100 - last_activity ?busy \<le> int (connection_timeout (daemon ?busy))"
    by simp
  have fresh: "connection_timeout (daemon ?live) = 0
      \<or> 100 - last_activity ?live \<le> int (connection_timeout (daemon ?live))"
    by simp
  from tls_idle_timeout [OF open1, of 100 ?plain] expired
  have "MHD_tls_connection_handle_idle ?plain 100 ?late =
      (MHD_NO, MHD_tls_connection_close ?late MHD_REQUEST_TERMINATED_TIMEOUT_REACHED)"
    by blast
  moreover from tls_idle_timeout [OF open2, of 100 ?plain "Advance MHD_CONNECTION_BODY_SENT"] recent
  have "timeout_closes (snd (MHD_tls_connection_handle_idle ?plain 100 ?busy)) = timeout_closes ?busy"
    by blast
  moreover from tls_idle_timeout [OF open3, of 100 ?plain] fresh
  have "MHD_tls_connection_handle_idle ?plain 100 ?live = (MHD_YES, ?live)"
    by simp
  ultimately show ?thesis by (simp add: tls_close_unfold timeout_closes_def)
qed

text \<open>
  Claim C4 as stated (any configured timeout value) fails for the timeout 0: ninety
  seconds after the last activity the idle step leaves a handshaking connection open and
  returns \<^verbatim>\<open>MHD_YES\<close>.
\<close>

theorem idle_ignores_zero_timeout:
  "100 - last_activity
           \<lparr>daemon = \<lparr>connection_timeout = 0\<rparr>, state = MHD_TLS_CONNECTION_INIT, socket_fd = 4,
            last_activity = 10, pool_live = True, trace = []\<rparr>
     > int (connection_timeout (daemon
           \<lparr>daemon = \<lparr>connection_timeout = 0\<rparr>, state = MHD_TLS_CONNECTION_INIT, socket_fd = 4,
            last_activity = 10, pool_live = True, trace = []\<rparr>))
   \<and> MHD_tls_connection_handle_idle (MHD_connection_handle_idle Fail_with_error 100) 100
       \<lparr>daemon = \<lparr>connection_timeout = 0\<rparr>, state = MHD_TLS_CONNECTION_INIT, socket_fd = 4,
        last_activity = 10, pool_live = True, trace = []\<rparr> =
     (MHD_YES,
      \<lparr>daemon = \<lparr>connection_timeout = 0\<rparr>, state = MHD_TLS_CONNECTION_INIT, socket_fd = 4,
       last_activity = 10, pool_live = True, trace = []\<rparr>)"
  by (simp add: MHD_tls_connection_handle_idle_def)

subsection \<open>Closing once\<close>



lemma guard_open: "sentinel_guard c \<Longrightarrow> state c \<noteq> MHD_CONNECTION_CLOSED \<Longrightarrow> socket_fd c \<noteq> - 1"
  by (auto simp: sentinel_guard_def)















end
